theory Spec2Isabelle
  imports Main
begin

section \<open>Python values\<close>

text \<open>
  The engine of \<^verbatim>\<open>lottus.py\<close> works on untyped dictionaries: a window, a session, a
  request, an option and a required spec are all \<^verbatim>\<open>dict\<close> objects whose keys may be
  missing and whose values may be \<^verbatim>\<open>None\<close>. The model keeps them untyped. A Python
  value is \<^verbatim>\<open>None\<close>, a bool, an int, a str, a list or a dict; a dict is the list of its
  items in insertion order, with hashable keys that are pairwise different under
  Python's key equality. Every operation that can raise returns a sum, \<open>Inl\<close> the
  exception.
\<close>

datatype pyval =
    PNone
  | PBool bool
  | PInt int
  | PStr string
  | PList "pyval list"
  | PDict "(pyval \<times> pyval) list"

datatype error =
    KeyError
  | TypeError
  | IndexError
  | UnboundLocalError
  | Raised string

text \<open>\<^verbatim>\<open>bool\<close> is a subclass of \<^verbatim>\<open>int\<close>: \<^verbatim>\<open>True == 1\<close> and both hash alike.\<close>

fun as_int :: "pyval \<Rightarrow> int option" where
  "as_int (PBool b) = Some (if b then 1 else 0)"
| "as_int (PInt i) = Some i"
| "as_int _ = None"

fun hashable :: "pyval \<Rightarrow> bool" where
  "hashable (PList _) = False"
| "hashable (PDict _) = False"
| "hashable _ = True"

text \<open>Equality of hashable values, as a dict uses it to find a key.\<close>

definition key_eq :: "pyval \<Rightarrow> pyval \<Rightarrow> bool" where
  "key_eq a b =
     (case (as_int a, as_int b) of
        (Some i, Some j) \<Rightarrow> i = j
      | (None, None) \<Rightarrow> a = b
      | _ \<Rightarrow> False)"

fun dict_lookup :: "(pyval \<times> 'v) list \<Rightarrow> pyval \<Rightarrow> 'v option" where
  "dict_lookup [] k = None"
| "dict_lookup ((k', v) # d) k = (if key_eq k' k then Some v else dict_lookup d k)"

text \<open>
  \<^verbatim>\<open>d[k] = v\<close> on a dict: an existing key keeps its place (and its own key object), a
  new key goes to the end.
\<close>

fun dict_update :: "pyval \<Rightarrow> 'v \<Rightarrow> (pyval \<times> 'v) list \<Rightarrow> (pyval \<times> 'v) list" where
  "dict_update k v [] = [(k, v)]"
| "dict_update k v ((k', v') # d) =
     (if key_eq k' k then (k', v) # d else (k', v') # dict_update k v d)"

text \<open>\<^verbatim>\<open>a == b\<close>: lists compare elementwise, dicts as mappings whatever the order.\<close>

fun py_eq :: "pyval \<Rightarrow> pyval \<Rightarrow> bool" where
  "py_eq (PList xs) (PList ys) = list_all2 py_eq xs ys"
| "py_eq (PDict d) (PDict e) =
     (length d = length e \<and>
      list_all (\<lambda>(k, v). case dict_lookup e k of None \<Rightarrow> False | Some w \<Rightarrow> py_eq v w) d)"
| "py_eq a b = key_eq a b"

text \<open>The truth value of an object, as \<^verbatim>\<open>if x:\<close> tests it.\<close>

fun truthy :: "pyval \<Rightarrow> bool" where
  "truthy PNone = False"
| "truthy (PBool b) = b"
| "truthy (PInt i) = (i \<noteq> 0)"
| "truthy (PStr s) = (s \<noteq> [])"
| "truthy (PList xs) = (xs \<noteq> [])"
| "truthy (PDict d) = (d \<noteq> [])"

text \<open>An index into a sequence of length \<open>n\<close>; a negative index counts from the end.\<close>

definition seq_index :: "nat \<Rightarrow> int \<Rightarrow> nat option" where
  "seq_index n i =
     (let j = (if i < 0 then int n + i else i)
      in if 0 \<le> j \<and> j < int n then Some (nat j) else None)"

text \<open>\<^verbatim>\<open>c[k]\<close>.\<close>

fun py_getitem :: "pyval \<Rightarrow> pyval \<Rightarrow> error + pyval" where
  "py_getitem (PDict d) k =
     (if \<not> hashable k then Inl TypeError
      else case dict_lookup d k of None \<Rightarrow> Inl KeyError | Some v \<Rightarrow> Inr v)"
| "py_getitem (PList xs) k =
     (case as_int k of
        None \<Rightarrow> Inl TypeError
      | Some i \<Rightarrow>
          (case seq_index (length xs) i of
             None \<Rightarrow> Inl IndexError
           | Some j \<Rightarrow> Inr (xs ! j)))"
| "py_getitem (PStr s) k =
     (case as_int k of
        None \<Rightarrow> Inl TypeError
      | Some i \<Rightarrow>
          (case seq_index (length s) i of
             None \<Rightarrow> Inl IndexError
           | Some j \<Rightarrow> Inr (PStr [s ! j])))"
| "py_getitem _ k = Inl TypeError"

text \<open>\<^verbatim>\<open>c[k] = v\<close>, returning the container after the write.\<close>

fun py_setitem :: "pyval \<Rightarrow> pyval \<Rightarrow> pyval \<Rightarrow> error + pyval" where
  "py_setitem (PDict d) k v =
     (if \<not> hashable k then Inl TypeError else Inr (PDict (dict_update k v d)))"
| "py_setitem (PList xs) k v =
     (case as_int k of
        None \<Rightarrow> Inl TypeError
      | Some i \<Rightarrow>
          (case seq_index (length xs) i of
             None \<Rightarrow> Inl IndexError
           | Some j \<Rightarrow> Inr (PList (xs[j := v]))))"
| "py_setitem _ k v = Inl TypeError"

text \<open>\<^verbatim>\<open>k in c\<close>: a key of a dict, an element of a list, a substring of a str.\<close>

fun str_contains :: "string \<Rightarrow> string \<Rightarrow> bool" where
  "str_contains [] k = (k = [])"
| "str_contains (c # cs) k = (take (length k) (c # cs) = k \<or> str_contains cs k)"

fun py_contains :: "pyval \<Rightarrow> pyval \<Rightarrow> error + bool" where
  "py_contains (PDict d) k =
     (if \<not> hashable k then Inl TypeError else Inr (dict_lookup d k \<noteq> None))"
| "py_contains (PList xs) k = Inr (list_ex (\<lambda>x. py_eq x k) xs)"
| "py_contains (PStr s) k =
     (case k of PStr t \<Rightarrow> Inr (str_contains s t) | _ \<Rightarrow> Inl TypeError)"
| "py_contains _ k = Inl TypeError"

text \<open>The elements \<^verbatim>\<open>for x in c\<close> runs through.\<close>

fun py_iter :: "pyval \<Rightarrow> error + pyval list" where
  "py_iter (PList xs) = Inr xs"
| "py_iter (PDict d) = Inr (map fst d)"
| "py_iter (PStr s) = Inr (map (\<lambda>c. PStr [c]) s)"
| "py_iter _ = Inl TypeError"

section \<open>Exceptions and collaborator state\<close>

text \<open>
  The session manager, the window cache and the registered window processors are
  application code. They are parameters of the model: functions that may raise and
  that read and write a state \<open>'w\<close> of their own (a database, a cache server), which
  the engine threads through its calls in program order. A window processor may also
  write into the session it is handed; the result of a processor says what it left
  there. Apart from that, the collaborators are taken to return fresh objects and to
  leave the request and the engine's registry alone.
\<close>

type_synonym ('a, 'w) prog = "'w \<Rightarrow> error + ('a \<times> 'w)"

definition ret :: "'a \<Rightarrow> ('a, 'w) prog" where
  "ret x = (\<lambda>w. Inr (x, w))"

definition bnd :: "('a, 'w) prog \<Rightarrow> ('a \<Rightarrow> ('b, 'w) prog) \<Rightarrow> ('b, 'w) prog" where
  "bnd m f = (\<lambda>w. case m w of Inl e \<Rightarrow> Inl e | Inr (x, w') \<Rightarrow> f x w')"

definition lift :: "error + 'a \<Rightarrow> ('a, 'w) prog" where
  "lift r = (\<lambda>w. case r of Inl e \<Rightarrow> Inl e | Inr x \<Rightarrow> Inr (x, w))"

definition bind_err :: "error + 'a \<Rightarrow> ('a \<Rightarrow> error + 'b) \<Rightarrow> error + 'b" where
  "bind_err r f = (case r of Inl e \<Rightarrow> Inl e | Inr x \<Rightarrow> f x)"

text \<open>
  \<^verbatim>\<open>class SessionManager\<close> and \<^verbatim>\<open>class WindowCache\<close>. The second argument of
  \<open>wc_get\<close> and of \<open>wc_delete\<close> is optional in the source: \<open>None\<close> is a call without it.
\<close>

record 'w session_manager =
  sm_get :: "pyval \<Rightarrow> pyval \<Rightarrow> (pyval, 'w) prog"
  sm_save :: "pyval \<Rightarrow> (unit, 'w) prog"
  sm_finish :: "pyval \<Rightarrow> (unit, 'w) prog"

record 'w window_cache =
  wc_get :: "pyval \<Rightarrow> pyval option \<Rightarrow> (pyval, 'w) prog"
  wc_cache :: "pyval \<Rightarrow> pyval \<Rightarrow> (unit, 'w) prog"
  wc_delete :: "pyval \<Rightarrow> pyval option \<Rightarrow> (unit, 'w) prog"

text \<open>
  A window processor takes the session and the request and returns the pair that
  \<^verbatim>\<open>window, session = processor(session, request)\<close> unpacks. The session it is
  handed is a dictionary object that it may write into before it returns, and the
  session it returns may be that object or another one. The result in the model has
  three parts: the window returned, the session returned, and the session that was
  passed in as the call leaves it. A processor that writes nothing leaves the session
  passed in as it was; one that writes into it and returns it has the same value in
  the last two parts.
\<close>

type_synonym 'w processor =
  "pyval \<Rightarrow> pyval \<Rightarrow> (pyval \<times> pyval \<times> pyval, 'w) prog"

section \<open>Constructors of the dictionaries\<close>

definition create_session :: "pyval \<Rightarrow> pyval \<Rightarrow> pyval \<Rightarrow> pyval \<Rightarrow> pyval" where
  "create_session session_nr cell_nr window_name variables =
     PDict [(PStr ''session_nr'', session_nr),
            (PStr ''variables'', variables),
            (PStr ''cell_nr'', cell_nr),
            (PStr ''window'', window_name)]"

definition create_request :: "pyval \<Rightarrow> pyval \<Rightarrow> pyval \<Rightarrow> pyval" where
  "create_request session_nr cell_nr request_str =
     PDict [(PStr ''session_nr'', session_nr),
            (PStr ''cell_nr'', cell_nr),
            (PStr ''request_str'', request_str)]"

text \<open>The argument \<open>required\<close> is accepted and not used, as in the source.\<close>

definition create_window ::
  "pyval \<Rightarrow> pyval \<Rightarrow> pyval \<Rightarrow> pyval \<Rightarrow> pyval \<Rightarrow> pyval \<Rightarrow> pyval \<Rightarrow> pyval" where
  "create_window name title message options required active window_type =
     PDict [(PStr ''name'', name),
            (PStr ''message'', message),
            (PStr ''title'', title),
            (PStr ''options'', options),
            (PStr ''active'', active),
            (PStr ''type'', window_type)]"

definition create_option :: "pyval \<Rightarrow> pyval \<Rightarrow> pyval \<Rightarrow> pyval \<Rightarrow> pyval" where
  "create_option option display window active =
     PDict [(PStr ''option'', option),
            (PStr ''display'', display),
            (PStr ''window'', window),
            (PStr ''active'', active)]"

definition create_required :: "pyval \<Rightarrow> pyval \<Rightarrow> pyval \<Rightarrow> pyval \<Rightarrow> pyval \<Rightarrow> pyval" where
  "create_required variable window in_options var_type var_length =
     PDict [(PStr ''var'', variable),
            (PStr ''window'', window),
            (PStr ''in_options'', in_options),
            (PStr ''type'', var_type),
            (PStr ''length'', var_length)]"

text \<open>
  \<^verbatim>\<open>create_window(name='ERROR', message=message, title='ERROR', window_type='MESSAGE')\<close>:
  the other parameters take their defaults.
\<close>

definition create_error_window :: "pyval \<Rightarrow> pyval" where
  "create_error_window message =
     create_window (PStr ''ERROR'') (PStr ''ERROR'') message PNone PNone (PBool True)
       (PStr ''MESSAGE'')"

section \<open>The response projection\<close>

definition option_response :: "pyval \<Rightarrow> error + pyval" where
  "option_response option =
     (if truthy option then
        bind_err (py_getitem option (PStr ''option'')) (\<lambda>opt.
        bind_err (py_getitem option (PStr ''display'')) (\<lambda>display.
        Inr (PDict [(PStr ''option'', opt), (PStr ''value'', display)])))
      else Inr PNone)"

text \<open>The list comprehension: the first element that raises ends it.\<close>

fun option_responses :: "pyval list \<Rightarrow> error + pyval list" where
  "option_responses [] = Inr []"
| "option_responses (x # xs) =
     (case option_response x of
        Inl e \<Rightarrow> Inl e
      | Inr r \<Rightarrow> (case option_responses xs of Inl e \<Rightarrow> Inl e | Inr rs \<Rightarrow> Inr (r # rs)))"

definition window_response :: "pyval \<Rightarrow> error + pyval" where
  "window_response window =
     (if truthy window then
        bind_err (py_contains window (PStr ''message'')) (\<lambda>has_message.
        bind_err (if has_message then py_getitem window (PStr ''message'') else Inr PNone)
          (\<lambda>message.
        bind_err (py_contains window (PStr ''title'')) (\<lambda>has_title.
        bind_err (if has_title then py_getitem window (PStr ''title'') else Inr PNone)
          (\<lambda>title.
        bind_err (py_contains window (PStr ''options'')) (\<lambda>has_options.
        bind_err
          (if has_options then
             bind_err (py_getitem window (PStr ''options'')) (\<lambda>options.
             bind_err (py_iter options) (\<lambda>xs.
             bind_err (option_responses xs) (\<lambda>rs. Inr (PList rs))))
           else Inr (PList []))
          (\<lambda>options.
        Inr (PDict [(PStr ''message'', message),
                    (PStr ''title'', title),
                    (PStr ''options'', options)])))))))
      else Inr PNone)"

section \<open>The application object\<close>

text \<open>
  \<^verbatim>\<open>class Lottus\<close>. \<open>windows\<close> is the dictionary of static windows the application
  passes in, \<open>mapped_windows\<close> the dictionary from window names to processors that
  \<^verbatim>\<open>add_window_rule\<close> fills. No cache is \<open>None\<close>; a cache object is taken to be
  truthy.
\<close>

record 'w lottus =
  initial_window :: pyval
  windows :: pyval
  session_manager :: "'w session_manager"
  window_cache :: "'w window_cache option"
  mapped_windows :: "(pyval \<times> 'w processor) list"

definition Lottus ::
  "pyval \<Rightarrow> pyval \<Rightarrow> 'w session_manager \<Rightarrow> 'w window_cache option \<Rightarrow> 'w lottus" where
  "Lottus initial_window' windows' session_manager' window_cache' =
     \<lparr>initial_window = initial_window',
      windows = windows',
      session_manager = session_manager',
      window_cache = window_cache',
      mapped_windows = []\<rparr>"

text \<open>\<^verbatim>\<open>self.mapped_windows[window_name] = f\<close>; the decorator \<^verbatim>\<open>window\<close> does the same.\<close>

definition add_window_rule :: "'w lottus \<Rightarrow> pyval \<Rightarrow> 'w processor \<Rightarrow> error + 'w lottus" where
  "add_window_rule self window_name f =
     (if \<not> hashable window_name then Inl TypeError
      else Inr (self\<lparr>mapped_windows := dict_update window_name f (mapped_windows self)\<rparr>))"

text \<open>\<^verbatim>\<open>window_name in self.mapped_windows\<close>.\<close>

definition in_mapped_windows :: "'w lottus \<Rightarrow> pyval \<Rightarrow> error + bool" where
  "in_mapped_windows self window_name =
     (if \<not> hashable window_name then Inl TypeError
      else Inr (dict_lookup (mapped_windows self) window_name \<noteq> None))"

definition get_window :: "'w lottus \<Rightarrow> pyval \<Rightarrow> error + pyval" where
  "get_window self window_name =
     bind_err (py_contains (windows self) window_name) (\<lambda>found.
     if found then py_getitem (windows self) window_name else Inr PNone)"

text \<open>
  Outside the \<^verbatim>\<open>if\<close> the local \<^verbatim>\<open>window\<close> is not bound, and the \<^verbatim>\<open>return\<close>
  raises. With the pair that the source returns comes the session of the caller as the
  processor leaves it.
\<close>

definition get_mapped_window ::
  "'w lottus \<Rightarrow> pyval \<Rightarrow> pyval \<Rightarrow> pyval \<Rightarrow> (pyval \<times> pyval \<times> pyval, 'w) prog" where
  "get_mapped_window self window_name session request =
     bnd (lift (in_mapped_windows self window_name)) (\<lambda>found.
     if found then
       (case dict_lookup (mapped_windows self) window_name of
          None \<Rightarrow> lift (Inl KeyError)
        | Some processor \<Rightarrow> processor session request)
     else lift (Inl UnboundLocalError))"

text \<open>
  \<^verbatim>\<open>next((s for s in options if s['option'] == request['request_str']), None)\<close>:
  the first element whose test holds; a test that raises ends the search.
\<close>

fun first_selected :: "pyval list \<Rightarrow> pyval \<Rightarrow> error + pyval" where
  "first_selected [] request = Inr PNone"
| "first_selected (s # rest) request =
     (case py_getitem s (PStr ''option'') of
        Inl e \<Rightarrow> Inl e
      | Inr opt \<Rightarrow>
          (case py_getitem request (PStr ''request_str'') of
             Inl e \<Rightarrow> Inl e
           | Inr request_str \<Rightarrow>
               if py_eq opt request_str then Inr s else first_selected rest request))"

definition get_selected_option :: "pyval \<Rightarrow> pyval \<Rightarrow> error + pyval" where
  "get_selected_option window request =
     bind_err (py_getitem window (PStr ''options'')) (\<lambda>options.
     bind_err (py_iter options) (\<lambda>xs. first_selected xs request))"

section \<open>The transition step\<close>

text \<open>
  \<^verbatim>\<open>process_window\<close> is one function in the source. The model names its parts; each
  is the text of the lines given with it.

  Lines 80 to 90, the current window: the cache with the session number, the cache
  without it, the processor mapped to the name, the static windows. The flag of the
  result says that the window is the object held by \<open>windows self\<close>. Line 87 binds
  the session that the processor returns to \<^verbatim>\<open>old_session\<close>, which nothing reads;
  \<^verbatim>\<open>session\<close> stays the object that was passed to the processor, with what the
  processor wrote into it. That session is the third part of the result.
\<close>

definition resolve_actual_window ::
  "'w lottus \<Rightarrow> pyval \<Rightarrow> pyval \<Rightarrow> pyval \<Rightarrow> (pyval \<times> bool \<times> pyval, 'w) prog" where
  "resolve_actual_window self actual_window_name session request =
     bnd (case window_cache self of
            None \<Rightarrow> ret PNone
          | Some cache \<Rightarrow>
              bnd (lift (py_getitem request (PStr ''session_nr''))) (\<lambda>session_nr.
              bnd (wc_get cache actual_window_name (Some session_nr)) (\<lambda>actual_window.
              if actual_window = PNone then wc_get cache actual_window_name None
              else ret actual_window)))
       (\<lambda>actual_window.
     bnd (if actual_window = PNone then
            bnd (lift (in_mapped_windows self actual_window_name)) (\<lambda>found.
            if found then
              bnd (get_mapped_window self actual_window_name session request)
                (\<lambda>(actual_window, old_session, session'). ret (actual_window, session'))
            else ret (actual_window, session))
          else ret (actual_window, session))
       (\<lambda>(actual_window, session').
     if actual_window = PNone then
       bnd (lift (get_window self actual_window_name)) (\<lambda>actual_window.
       ret (actual_window, True, session'))
     else ret (actual_window, False, session')))"

text \<open>Line 95.\<close>

definition window_required :: "pyval \<Rightarrow> error + pyval" where
  "window_required actual_window =
     bind_err (py_contains actual_window (PStr ''required'')) (\<lambda>found.
     if found then py_getitem actual_window (PStr ''required'') else Inr PNone)"

text \<open>
  \<^verbatim>\<open>session['variables'][required['var']] = value\<close> (lines 108, 110 and 115): the
  right-hand side is evaluated first. The write goes into the dictionary that the
  session holds, so the session after it holds the dictionary after it.
\<close>

definition capture :: "pyval \<Rightarrow> pyval \<Rightarrow> error + pyval \<Rightarrow> error + pyval" where
  "capture session required rhs =
     bind_err rhs (\<lambda>v.
     bind_err (py_getitem session (PStr ''variables'')) (\<lambda>variables.
     bind_err (py_getitem required (PStr ''var'')) (\<lambda>var.
     bind_err (py_setitem variables var v) (\<lambda>variables'.
     py_setitem session (PStr ''variables'') variables'))))"

text \<open>
  \<^verbatim>\<open>actual_window['message'] = "Please select a valid option"\<close> (lines 112 and 124)
  writes into the window object itself. When that object is the one the static windows
  hold, they hold the new message from then on.
\<close>

definition reprompt ::
  "'w lottus \<Rightarrow> pyval \<Rightarrow> pyval \<Rightarrow> bool \<Rightarrow> error + (pyval \<times> 'w lottus)" where
  "reprompt self actual_window_name actual_window in_windows =
     bind_err (py_setitem actual_window (PStr ''message'')
                 (PStr ''Please select a valid option'')) (\<lambda>actual_window'.
     if in_windows then
       bind_err (py_setitem (windows self) actual_window_name actual_window') (\<lambda>windows'.
       Inr (actual_window', self\<lparr>windows := windows'\<rparr>))
     else Inr (actual_window', self))"

text \<open>
  Lines 102 to 119, a window with a \<^verbatim>\<open>required\<close>. Line 117 is outside the
  \<^verbatim>\<open>if\<close> of line 103 and runs after each of its branches. The error window of line
  119 is built and dropped; \<^verbatim>\<open>window\<close> stays \<^verbatim>\<open>None\<close>.
\<close>

definition required_branch ::
  "'w lottus \<Rightarrow> pyval \<Rightarrow> pyval \<Rightarrow> pyval \<Rightarrow> pyval \<Rightarrow> bool \<Rightarrow> pyval \<Rightarrow> pyval \<Rightarrow>
   (pyval \<times> pyval \<times> 'w lottus, 'w) prog" where
  "required_branch self session request actual_window_name actual_window in_windows
     required request_str =
     bnd (lift (py_contains required (PStr ''window''))) (\<lambda>has_window.
     if has_window then
       bnd (lift (py_contains required (PStr ''in_options''))) (\<lambda>has_in_options.
       bnd (if has_in_options then
              lift (bind_err (py_getitem required (PStr ''in_options'')) (\<lambda>in_options.
                    Inr (py_eq in_options (PBool True))))
            else ret False) (\<lambda>in_options.
       bnd (if in_options then
              bnd (lift (get_selected_option actual_window request)) (\<lambda>selected_option.
              if truthy selected_option then
                bnd (lift (py_contains selected_option (PStr ''value''))) (\<lambda>has_value.
                bnd (lift (capture session required
                             (py_getitem selected_option
                                (if has_value then PStr ''value'' else PStr ''option''))))
                  (\<lambda>session'. ret (session', self)))
              else
                bnd (lift (reprompt self actual_window_name actual_window in_windows))
                  (\<lambda>(window, self'). ret (session, self')))
            else
              bnd (lift (capture session required (Inr request_str)))
                (\<lambda>session'. ret (session', self))) (\<lambda>(session', self').
       bnd (lift (py_getitem required (PStr ''window''))) (\<lambda>target.
       bnd (lift (get_window self' target)) (\<lambda>window.
       ret (window, session', self'))))))
     else
       (let dropped = create_error_window (PStr ''Error processing your request'')
        in ret (PNone, session, self)))"

text \<open>Lines 121 to 133, a window without a \<^verbatim>\<open>required\<close>.\<close>

definition select_branch ::
  "'w lottus \<Rightarrow> pyval \<Rightarrow> pyval \<Rightarrow> pyval \<Rightarrow> pyval \<Rightarrow> bool \<Rightarrow> pyval \<Rightarrow>
   (pyval \<times> pyval \<times> 'w lottus, 'w) prog" where
  "select_branch self session request actual_window_name actual_window in_windows
     session_nr =
     bnd (lift (get_selected_option actual_window request)) (\<lambda>selected_option.
     if selected_option = PNone then
       bnd (lift (reprompt self actual_window_name actual_window in_windows))
         (\<lambda>(window, self'). ret (window, session, self'))
     else
       bnd (lift (py_getitem selected_option (PStr ''window''))) (\<lambda>target.
       bnd (lift (in_mapped_windows self target)) (\<lambda>found.
       if found then
         bnd (get_mapped_window self target session request)
           (\<lambda>(window, session', passed).
         bnd (case window_cache self of
                None \<Rightarrow> ret ()
              | Some cache \<Rightarrow> wc_cache cache window session_nr) (\<lambda>u.
         ret (window, session', self)))
       else
         bnd (lift (get_window self target)) (\<lambda>window.
         ret (window, session, self)))))"

text \<open>Lines 92 to 135, from the current window on.\<close>

definition transition ::
  "'w lottus \<Rightarrow> pyval \<Rightarrow> pyval \<Rightarrow> pyval \<Rightarrow> pyval \<Rightarrow> bool \<Rightarrow>
   (pyval \<times> pyval \<times> 'w lottus, 'w) prog" where
  "transition self session request actual_window_name actual_window in_windows =
     bnd (lift (py_getitem actual_window (PStr ''options''))) (\<lambda>options.
     bnd (lift (py_getitem actual_window (PStr ''type''))) (\<lambda>window_type.
     bnd (lift (py_getitem actual_window (PStr ''active''))) (\<lambda>active.
     bnd (lift (window_required actual_window)) (\<lambda>required.
     bnd (lift (py_getitem request (PStr ''session_nr''))) (\<lambda>session_nr.
     bnd (lift (py_getitem request (PStr ''request_str''))) (\<lambda>request_str.
     bnd (lift (py_getitem request (PStr ''cell_nr''))) (\<lambda>cell_nr.
     if required \<noteq> PNone then
       required_branch self session request actual_window_name actual_window in_windows
         required request_str
     else
       select_branch self session request actual_window_name actual_window in_windows
         session_nr)))))))"

text \<open>
  The result is the pair the source returns, with the application object after the
  call.
\<close>

definition process_window ::
  "'w lottus \<Rightarrow> pyval \<Rightarrow> pyval \<Rightarrow> (pyval \<times> pyval \<times> 'w lottus, 'w) prog" where
  "process_window self session request =
     bnd (lift (py_getitem session (PStr ''window''))) (\<lambda>actual_window_name.
     bnd (resolve_actual_window self actual_window_name session request)
       (\<lambda>(actual_window, in_windows, session').
     transition self session' request actual_window_name actual_window in_windows))"

section \<open>Processing a request\<close>

definition process_request :: "'w lottus \<Rightarrow> pyval \<Rightarrow> (pyval \<times> 'w lottus, 'w) prog" where
  "process_request self request =
     bnd (lift (py_getitem request (PStr ''session_nr''))) (\<lambda>session_nr.
     bnd (lift (py_getitem request (PStr ''request_str''))) (\<lambda>request_str.
     bnd (lift (py_getitem request (PStr ''cell_nr''))) (\<lambda>cell_nr.
     bnd (sm_get (session_manager self) session_nr cell_nr) (\<lambda>session.
     bnd (if session = PNone then
            bnd (lift (in_mapped_windows self (initial_window self))) (\<lambda>found.
            if found then
              bnd (get_mapped_window self (initial_window self)
                     (create_session session_nr cell_nr (initial_window self) PNone) request)
                (\<lambda>(window, session', passed).
              bnd (case window_cache self of
                     None \<Rightarrow> ret ()
                   | Some cache \<Rightarrow> wc_cache cache window session_nr) (\<lambda>u.
              ret (window, session', self)))
            else
              bnd (lift (get_window self (initial_window self))) (\<lambda>window.
              ret (window, create_session session_nr cell_nr (initial_window self) PNone,
                   self)))
          else process_window self session request) (\<lambda>(window, session', self').
     bnd (lift (py_getitem window (PStr ''name''))) (\<lambda>name.
     bnd (lift (py_setitem session' (PStr ''window'') name)) (\<lambda>session''.
     bnd (sm_save (session_manager self') session'') (\<lambda>u.
     ret (window, self')))))))))"

section \<open>An application in memory\<close>

text \<open>
  A session manager and a window cache that keep what they are given in lists, newest
  first, for running the engine on concrete requests.
\<close>

record store =
  sessions :: "pyval list"
  cached :: "(pyval option \<times> pyval) list"

fun find_session :: "pyval list \<Rightarrow> pyval \<Rightarrow> pyval \<Rightarrow> pyval" where
  "find_session [] session_nr cell_nr = PNone"
| "find_session (s # rest) session_nr cell_nr =
     (if py_getitem s (PStr ''session_nr'') = Inr session_nr \<and>
         py_getitem s (PStr ''cell_nr'') = Inr cell_nr
      then s else find_session rest session_nr cell_nr)"

fun find_cached :: "(pyval option \<times> pyval) list \<Rightarrow> pyval \<Rightarrow> pyval option \<Rightarrow> pyval" where
  "find_cached [] window_name session_nr = PNone"
| "find_cached ((nr, window) # rest) window_name session_nr =
     (if nr = session_nr \<and> py_getitem window (PStr ''name'') = Inr window_name
      then window else find_cached rest window_name session_nr)"

definition memory_sessions :: "store session_manager" where
  "memory_sessions =
     \<lparr>sm_get = (\<lambda>session_nr cell_nr w. Inr (find_session (sessions w) session_nr cell_nr, w)),
      sm_save = (\<lambda>session w. Inr ((), w\<lparr>sessions := session # sessions w\<rparr>)),
      sm_finish = (\<lambda>session w. Inr ((), w))\<rparr>"

definition memory_cache :: "store window_cache" where
  "memory_cache =
     \<lparr>wc_get = (\<lambda>window_name session_nr w.
                 Inr (find_cached (cached w) window_name session_nr, w)),
      wc_cache = (\<lambda>window session_nr w.
                 Inr ((), w\<lparr>cached := (Some session_nr, window) # cached w\<rparr>)),
      wc_delete = (\<lambda>session_nr window_name w. Inr ((), w))\<rparr>"

section \<open>The resolution order of the specification\<close>

text \<open>
  The specification (4.1, transition step 1) resolves the current window from four
  sources, in order: the window cache with the session number, the window cache without
  it, the dynamic resolver if one is registered for the name, the static registry; the
  first result that is not empty is used. These definitions follow its words, to be
  compared with \<open>resolve_actual_window\<close>.
\<close>

fun first_non_empty :: "(pyval, 'w) prog list \<Rightarrow> (pyval, 'w) prog" where
  "first_non_empty [] = ret PNone"
| "first_non_empty (m # ms) =
     bnd m (\<lambda>window. if window = PNone then first_non_empty ms else ret window)"

definition cache_scoped :: "'w lottus \<Rightarrow> pyval \<Rightarrow> pyval \<Rightarrow> (pyval, 'w) prog" where
  "cache_scoped self window_name request =
     (case window_cache self of
        None \<Rightarrow> ret PNone
      | Some cache \<Rightarrow>
          bnd (lift (py_getitem request (PStr ''session_nr''))) (\<lambda>session_nr.
          wc_get cache window_name (Some session_nr)))"

definition cache_unscoped :: "'w lottus \<Rightarrow> pyval \<Rightarrow> (pyval, 'w) prog" where
  "cache_unscoped self window_name =
     (case window_cache self of
        None \<Rightarrow> ret PNone
      | Some cache \<Rightarrow> wc_get cache window_name None)"

definition dynamic_resolver :: "'w lottus \<Rightarrow> pyval \<Rightarrow> pyval \<Rightarrow> pyval \<Rightarrow> (pyval, 'w) prog" where
  "dynamic_resolver self window_name session request =
     bnd (lift (in_mapped_windows self window_name)) (\<lambda>registered.
     if registered then
       bnd (get_mapped_window self window_name session request)
         (\<lambda>(window, session', passed). ret window)
     else ret PNone)"

definition static_registry :: "'w lottus \<Rightarrow> pyval \<Rightarrow> (pyval, 'w) prog" where
  "static_registry self window_name = lift (get_window self window_name)"

definition resolution_order :: "'w lottus \<Rightarrow> pyval \<Rightarrow> pyval \<Rightarrow> pyval \<Rightarrow> (pyval, 'w) prog" where
  "resolution_order self window_name session request =
     first_non_empty
       [cache_scoped self window_name request,
        cache_unscoped self window_name,
        dynamic_resolver self window_name session request,
        static_registry self window_name]"

section \<open>Example windows and applications\<close>

text \<open>
  The windows of the examples in the specification (8): a window that captures a city
  from its options, one that captures an age as free text, both leading to
  \<^verbatim>\<open>NEXT\<close>; a window whose \<^verbatim>\<open>required\<close> names no next window; a plain menu.
  \<open>required_window\<close> writes the dictionary out, since \<open>create_window\<close> drops
  \<^verbatim>\<open>required\<close>.
\<close>

definition session_at :: "pyval \<Rightarrow> pyval \<Rightarrow> pyval" where
  "session_at window_name variables =
     create_session (PStr ''1'') (PStr ''258'') window_name variables"

definition request_of :: "string \<Rightarrow> pyval" where
  "request_of text = create_request (PStr ''1'') (PStr ''258'') (PStr text)"

definition next_window :: pyval where
  "next_window =
     create_window (PStr ''NEXT'') (PStr ''Next'') (PStr ''Done'') (PList []) PNone (PBool True)
       (PStr ''FORM'')"

definition required_window :: "string \<Rightarrow> pyval \<Rightarrow> pyval \<Rightarrow> pyval" where
  "required_window name message required =
     PDict [(PStr ''name'', PStr name),
            (PStr ''message'', message),
            (PStr ''title'', PStr name),
            (PStr ''options'',
             PList [create_option (PStr ''1'') (PStr ''Maputo'') (PStr ''NEXT'') (PBool True),
                    create_option (PStr ''2'') (PStr ''Beira'') (PStr ''NEXT'') (PBool True)]),
            (PStr ''active'', PBool True),
            (PStr ''type'', PStr ''FORM''),
            (PStr ''required'', required)]"

definition city_window :: "pyval \<Rightarrow> pyval" where
  "city_window message =
     required_window ''CITY'' message
       (create_required (PStr ''city'') (PStr ''NEXT'') (PBool True) (PStr ''numeric'')
          (PStr ''11''))"

definition age_window :: "pyval \<Rightarrow> pyval" where
  "age_window message =
     required_window ''AGE'' message
       (create_required (PStr ''age'') (PStr ''NEXT'') (PBool False) (PStr ''numeric'')
          (PStr ''11''))"

definition broken_window :: pyval where
  "broken_window =
     required_window ''BROKEN'' (PStr ''How old are you?'') (PDict [(PStr ''var'', PStr ''age'')])"

definition menu_window :: pyval where
  "menu_window =
     create_window (PStr ''MENU'') (PStr ''Menu'') (PStr ''Choose'')
       (PList [create_option (PStr ''1'') (PStr ''Go on'') (PStr ''NEXT'') (PBool True)])
       PNone (PBool True) (PStr ''FORM'')"

definition app_of :: "string \<Rightarrow> (pyval \<times> pyval) list \<Rightarrow> store lottus" where
  "app_of initial ws = Lottus (PStr initial) (PDict ws) memory_sessions None"

text \<open>
  Two processors for \<^verbatim>\<open>AGE\<close>. The first returns a session of its own making and
  leaves the one it is handed alone:
  \<^verbatim>\<open>return window, create_session('1', '258', 'AGE', {'seen': 'yes'})\<close>. The second
  writes into the session it is handed and returns it:
  \<^verbatim>\<open>session['variables']['seen'] = 'yes'; return window, session\<close>.
\<close>

definition age_processor :: "store processor" where
  "age_processor session request =
     ret (age_window (PStr ''How old are you?''),
          session_at (PStr ''AGE'') (PDict [(PStr ''seen'', PStr ''yes'')]),
          session)"

definition marking_processor :: "store processor" where
  "marking_processor session request =
     bnd (lift (bind_err (py_getitem session (PStr ''variables'')) (\<lambda>variables.
                bind_err (py_setitem variables (PStr ''seen'') (PStr ''yes'')) (\<lambda>variables'.
                py_setitem session (PStr ''variables'') variables')))) (\<lambda>session'.
     ret (age_window (PStr ''How old are you?''), session', session'))"

section \<open>Unfolding and basic facts\<close>

lemmas engine_defs =
  process_request_def process_window_def transition_def required_branch_def
  select_branch_def resolve_actual_window_def reprompt_def capture_def window_required_def
  get_selected_option_def get_window_def get_mapped_window_def in_mapped_windows_def
  Lottus_def create_request_def create_session_def create_window_def
  create_option_def create_required_def create_error_window_def
  memory_sessions_def memory_cache_def bnd_def lift_def ret_def bind_err_def key_eq_def

lemmas example_defs =
  session_at_def request_of_def next_window_def required_window_def city_window_def
  age_window_def broken_window_def menu_window_def app_of_def age_processor_def
  marking_processor_def

lemma bnd_Inr_iff:
  "bnd m f w = Inr r \<longleftrightarrow> (\<exists>x w'. m w = Inr (x, w') \<and> f x w' = Inr r)"
  by (auto simp: bnd_def split: sum.splits)

lemma lift_Inr_iff: "lift r w = Inr (x, w') \<longleftrightarrow> r = Inr x \<and> w' = w"
  by (auto simp: lift_def split: sum.splits)

lemma ret_Inr_iff: "ret x w = Inr (y, w') \<longleftrightarrow> y = x \<and> w' = w"
  by (auto simp: ret_def)

lemma bind_err_Inr_iff: "bind_err r f = Inr y \<longleftrightarrow> (\<exists>x. r = Inr x \<and> f x = Inr y)"
  by (auto simp: bind_err_def split: sum.splits)

lemmas prog_iffs = bnd_Inr_iff lift_Inr_iff ret_Inr_iff bind_err_Inr_iff

lemma key_eq_PStr [simp]: "key_eq (PStr a) b \<longleftrightarrow> b = PStr a"
  by (cases b) (auto simp: key_eq_def)

lemma key_eq_refl [simp]: "key_eq k k"
  by (cases k) (auto simp: key_eq_def)

lemma dict_lookup_update_same [simp]: "dict_lookup (dict_update k v d) k = Some v"
  by (induction d) auto

lemma setitem_getitem_str:
  "py_setitem c (PStr k) v = Inr c' \<Longrightarrow> py_getitem c' (PStr k) = Inr v"
  by (cases c) auto

lemma reprompt_self:
  "reprompt self n aw reg = Inr (aw', self') \<Longrightarrow> \<exists>ws. self' = self\<lparr>windows := ws\<rparr>"
  by (cases reg) (auto simp: reprompt_def prog_iffs intro: exI [of _ "windows self"])

lemma required_branch_self:
  "required_branch self session request n aw reg required request_str w =
     Inr ((window, session', self'), w') \<Longrightarrow> \<exists>ws. self' = self\<lparr>windows := ws\<rparr>"
  unfolding required_branch_def Let_def
  by (auto simp: prog_iffs split: if_splits dest!: reprompt_self
           intro: exI [of _ "windows self"])

lemma select_branch_self:
  "select_branch self session request n aw reg session_nr w =
     Inr ((window, session', self'), w') \<Longrightarrow> \<exists>ws. self' = self\<lparr>windows := ws\<rparr>"
  unfolding select_branch_def
  by (auto simp: prog_iffs split: if_splits dest!: reprompt_self
           intro: exI [of _ "windows self"])

lemma process_window_self:
  "process_window self session request w = Inr ((window, session', self'), w') \<Longrightarrow>
   \<exists>ws. self' = self\<lparr>windows := ws\<rparr>"
  unfolding process_window_def transition_def
  by (auto simp: prog_iffs split: if_splits dest: required_branch_self select_branch_self)

lemma process_request_tail:
  assumes "process_request self request w = Inr ((window, self'), w')"
  shows "\<exists>session' session'' name w0.
           (self' = self \<or>
            (\<exists>s w1 w2. process_window self s request w1 = Inr ((window, session', self'), w2))) \<and>
           py_getitem window (PStr ''name'') = Inr name \<and>
           py_setitem session' (PStr ''window'') name = Inr session'' \<and>
           sm_save (session_manager self') session'' w0 = Inr ((), w')"
  using assms unfolding process_request_def
  by (fastforce simp: prog_iffs split: if_splits)

lemma getitem_str_dict:
  "py_getitem c (PStr k) = Inr v \<Longrightarrow> \<exists>d. c = PDict d \<and> dict_lookup d (PStr k) = Some v"
  by (cases c) (auto split: option.splits)

lemma first_selected_append:
  assumes "\<forall>s\<in>set before. \<exists>opt. py_getitem s (PStr ''option'') = Inr opt \<and> \<not> py_eq opt request_str"
    and "py_getitem request (PStr ''request_str'') = Inr request_str"
    and "py_getitem selected (PStr ''option'') = Inr opt"
    and "py_eq opt request_str"
  shows "first_selected (before @ selected # after) request = Inr selected"
  using assms by (induction before) auto

section \<open>Claims\<close>

text \<open>
  C1. A stored session is at \<^verbatim>\<open>CITY\<close>, whose \<^verbatim>\<open>required\<close> has
  \<^verbatim>\<open>in_options\<close> true, and the request \<^verbatim>\<open>9\<close> matches none of its options.
  Line 112 writes the message into the current window and line 113 makes it the
  result, but line 117 runs after them and replaces the result: the window returned is
  \<^verbatim>\<open>NEXT\<close> and the session saved is at \<^verbatim>\<open>NEXT\<close>. No variable is written.
\<close>

theorem in_options_mismatch_advances:
  "process_request
     (app_of ''CITY'' [(PStr ''CITY'', city_window (PStr ''Where do you live?'')),
                       (PStr ''NEXT'', next_window)])
     (request_of ''9'')
     \<lparr>sessions = [session_at (PStr ''CITY'') (PDict [])], cached = []\<rparr> =
   Inr ((next_window,
         app_of ''CITY'' [(PStr ''CITY'', city_window (PStr ''Please select a valid option'')),
                          (PStr ''NEXT'', next_window)]),
        \<lparr>sessions = [session_at (PStr ''NEXT'') (PDict []),
                     session_at (PStr ''CITY'') (PDict [])],
         cached = []\<rparr>)"
  by (simp add: engine_defs example_defs)

text \<open>
  C2, at the example of the specification (8): the option \<^verbatim>\<open>1\<close> displays
  \<^verbatim>\<open>Maputo\<close>, and the request \<^verbatim>\<open>1\<close> stores \<^verbatim>\<open>1\<close> under \<^verbatim>\<open>city\<close>. Line
  107 looks for a key \<^verbatim>\<open>value\<close> in the option, which \<open>create_option\<close> never
  sets, and line 110 falls back on \<^verbatim>\<open>option\<close>; \<^verbatim>\<open>display\<close> is not read.
\<close>

theorem in_options_captures_option_not_display:
  "py_getitem (create_option (PStr ''1'') (PStr ''Maputo'') (PStr ''NEXT'') (PBool True))
     (PStr ''display'') = Inr (PStr ''Maputo'') \<and>
   process_request
     (app_of ''CITY'' [(PStr ''CITY'', city_window (PStr ''Where do you live?'')),
                       (PStr ''NEXT'', next_window)])
     (request_of ''1'')
     \<lparr>sessions = [session_at (PStr ''CITY'') (PDict [])], cached = []\<rparr> =
   Inr ((next_window,
         app_of ''CITY'' [(PStr ''CITY'', city_window (PStr ''Where do you live?'')),
                          (PStr ''NEXT'', next_window)]),
        \<lparr>sessions = [session_at (PStr ''NEXT'') (PDict [(PStr ''city'', PStr ''1'')]),
                     session_at (PStr ''CITY'') (PDict [])],
         cached = []\<rparr>)"
  by (simp add: engine_defs example_defs)

text \<open>
  C2, amended. A stored session (\<open>current\<close>, as the resolution of its current window
  leaves it) holds a dictionary under \<^verbatim>\<open>variables\<close>, and its current window has a \<^verbatim>\<open>required\<close> with a \<^verbatim>\<open>window\<close>, a \<^verbatim>\<open>var\<close> and an
  \<^verbatim>\<open>in_options\<close> equal to \<^verbatim>\<open>True\<close>. If an option of the window has an
  \<^verbatim>\<open>option\<close> equal to the request text and the options before it have one that
  differs, that option is selected, \<^verbatim>\<open>variables[required['var']]\<close> becomes its
  \<^verbatim>\<open>value\<close> when it has that key and its \<^verbatim>\<open>option\<close> otherwise, and the window
  returned is the one \<^verbatim>\<open>required['window']\<close> names in the static windows.
\<close>

theorem required_in_options_captures_value:
  assumes "py_getitem session (PStr ''window'') = Inr name"
    and "resolve_actual_window self name session request w =
           Inr ((actual_window, in_windows, current), w')"
    and "py_getitem actual_window (PStr ''options'') = Inr (PList (before @ selected # after))"
    and "py_getitem actual_window (PStr ''type'') = Inr window_type"
    and "py_getitem actual_window (PStr ''active'') = Inr active"
    and "py_getitem actual_window (PStr ''required'') = Inr required"
    and "py_getitem required (PStr ''window'') = Inr target"
    and "py_getitem required (PStr ''in_options'') = Inr in_options"
    and "py_eq in_options (PBool True)"
    and "py_getitem required (PStr ''var'') = Inr var"
    and "hashable var"
    and "py_getitem request (PStr ''session_nr'') = Inr session_nr"
    and "py_getitem request (PStr ''request_str'') = Inr request_str"
    and "py_getitem request (PStr ''cell_nr'') = Inr cell_nr"
    and "\<forall>s\<in>set before. \<exists>opt. py_getitem s (PStr ''option'') = Inr opt \<and> \<not> py_eq opt request_str"
    and "py_getitem selected (PStr ''option'') = Inr opt"
    and "py_eq opt request_str"
    and "captured = (case py_getitem selected (PStr ''value'') of Inr v \<Rightarrow> v | Inl e \<Rightarrow> opt)"
    and "py_getitem current (PStr ''variables'') = Inr (PDict variables)"
    and "get_window self target = Inr window"
  shows "get_selected_option actual_window request = Inr selected \<and>
         (\<exists>session'.
            py_setitem current (PStr ''variables'') (PDict (dict_update var captured variables)) =
              Inr session' \<and>
            py_getitem (PDict (dict_update var captured variables)) var = Inr captured \<and>
            process_window self session request w = Inr ((window, session', self), w'))"
proof -
  have sel: "get_selected_option actual_window request = Inr selected"
    using assms(3) first_selected_append [OF assms(15) assms(13) assms(16) assms(17)]
    by (simp add: get_selected_option_def bind_err_def)
  obtain r where r: "required = PDict r" "dict_lookup r (PStr ''window'') = Some target"
    using getitem_str_dict [OF assms(7)] by blast
  obtain s where s: "selected = PDict s" "dict_lookup s (PStr ''option'') = Some opt"
    using getitem_str_dict [OF assms(16)] by blast
  obtain d where d: "current = PDict d"
    using getitem_str_dict [OF assms(19)] by blast
  define has_value where "has_value = (dict_lookup s (PStr ''value'') \<noteq> None)"
  have truthy: "truthy selected"
    using s by (cases s) auto
  have req: "window_required actual_window = Inr required"
    using getitem_str_dict [OF assms(6)] assms(6)
    by (auto simp: window_required_def bind_err_def)
  have some: "required \<noteq> PNone"
    using r by simp
  have has_window: "py_contains required (PStr ''window'') = Inr True"
    using r by simp
  have has_in_options: "py_contains required (PStr ''in_options'') = Inr True"
    using getitem_str_dict [OF assms(8)] by auto
  have contains_value: "py_contains selected (PStr ''value'') = Inr has_value"
    using s by (simp add: has_value_def)
  have cap: "capture current required
               (py_getitem selected (if has_value then PStr ''value'' else PStr ''option'')) =
             Inr (PDict (dict_update (PStr ''variables'')
                           (PDict (dict_update var captured variables)) d))"
    using assms(10,11,16,18,19) s d
    by (auto simp: capture_def bind_err_def has_value_def split: option.splits)
  have "process_window self session request w =
          Inr ((window,
                PDict (dict_update (PStr ''variables'')
                         (PDict (dict_update var captured variables)) d),
                self), w')"
    using assms(9)
    by (simp add: process_window_def transition_def required_branch_def bnd_def lift_def
          ret_def bind_err_def assms(1,2,3,4,5,7,8,12,13,14,20) req some
          has_window has_in_options sel truthy contains_value cap)
  with sel d assms(11) show ?thesis
    by simp
qed

theorem required_in_options_captures_value_witness:
  "get_selected_option (city_window (PStr ''Where do you live?'')) (request_of ''2'') =
     Inr (create_option (PStr ''2'') (PStr ''Beira'') (PStr ''NEXT'') (PBool True)) \<and>
   process_window
     (app_of ''CITY'' [(PStr ''CITY'', city_window (PStr ''Where do you live?'')),
                       (PStr ''NEXT'', next_window)])
     (session_at (PStr ''CITY'') (PDict [])) (request_of ''2'')
     \<lparr>sessions = [], cached = []\<rparr> =
   Inr ((next_window, session_at (PStr ''CITY'') (PDict [(PStr ''city'', PStr ''2'')]),
         app_of ''CITY'' [(PStr ''CITY'', city_window (PStr ''Where do you live?'')),
                          (PStr ''NEXT'', next_window)]),
        \<lparr>sessions = [], cached = []\<rparr>)"
  using required_in_options_captures_value
    [of "session_at (PStr ''CITY'') (PDict [])" "PStr ''CITY''"
        "app_of ''CITY'' [(PStr ''CITY'', city_window (PStr ''Where do you live?'')),
                          (PStr ''NEXT'', next_window)]"
        "request_of ''2''" "\<lparr>sessions = [], cached = []\<rparr>"
        "city_window (PStr ''Where do you live?'')" True
        "session_at (PStr ''CITY'') (PDict [])" "\<lparr>sessions = [], cached = []\<rparr>"
        "[create_option (PStr ''1'') (PStr ''Maputo'') (PStr ''NEXT'') (PBool True)]"
        "create_option (PStr ''2'') (PStr ''Beira'') (PStr ''NEXT'') (PBool True)"
        "[]" "PStr ''FORM''" "PBool True"
        "create_required (PStr ''city'') (PStr ''NEXT'') (PBool True) (PStr ''numeric'')
           (PStr ''11'')"
        "PStr ''NEXT''" "PBool True" "PStr ''city''" "PStr ''1''" "PStr ''2''" "PStr ''258''"
        "PStr ''2''" "PStr ''2''" "[]" next_window]
  by (simp add: engine_defs example_defs)

text \<open>
  C3. A stored session is at \<^verbatim>\<open>BROKEN\<close>, whose \<^verbatim>\<open>required\<close> has no
  \<^verbatim>\<open>window\<close>. Line 119 builds the error window and drops it, so
  \<open>process_window\<close> returns \<^verbatim>\<open>None\<close> for the window, and line 65 of
  \<open>process_request\<close> raises on \<^verbatim>\<open>window['name']\<close>.
\<close>

theorem required_without_window_raises:
  "process_window (app_of ''BROKEN'' [(PStr ''BROKEN'', broken_window)])
     (session_at (PStr ''BROKEN'') (PDict [])) (request_of ''34'')
     \<lparr>sessions = [session_at (PStr ''BROKEN'') (PDict [])], cached = []\<rparr> =
   Inr ((PNone, session_at (PStr ''BROKEN'') (PDict []),
         app_of ''BROKEN'' [(PStr ''BROKEN'', broken_window)]),
        \<lparr>sessions = [session_at (PStr ''BROKEN'') (PDict [])], cached = []\<rparr>) \<and>
   process_request (app_of ''BROKEN'' [(PStr ''BROKEN'', broken_window)]) (request_of ''34'')
     \<lparr>sessions = [session_at (PStr ''BROKEN'') (PDict [])], cached = []\<rparr> =
   Inl TypeError"
  by (simp add: engine_defs example_defs)

text \<open>
  C4. When \<open>process_request\<close> returns, on the path of a new session and on the path
  of a stored one, the session it handed to the session manager's \<open>save\<close> holds under
  \<^verbatim>\<open>window\<close> the \<^verbatim>\<open>name\<close> of the window it returns, and the state of the
  collaborators it leaves is the one that \<open>save\<close> left.
\<close>

theorem process_request_saves_window_name:
  assumes "process_request self request w = Inr ((window, self'), w')"
  shows "\<exists>session name w0.
           py_getitem window (PStr ''name'') = Inr name \<and>
           py_getitem session (PStr ''window'') = Inr name \<and>
           sm_save (session_manager self) session w0 = Inr ((), w')"
proof -
  from process_request_tail [OF assms] obtain session' session'' name w0 where
    step: "self' = self \<or>
           (\<exists>s w1 w2. process_window self s request w1 = Inr ((window, session', self'), w2))"
    and name: "py_getitem window (PStr ''name'') = Inr name"
    and set: "py_setitem session' (PStr ''window'') name = Inr session''"
    and save: "sm_save (session_manager self') session'' w0 = Inr ((), w')"
    by blast
  from step have "session_manager self' = session_manager self"
    by (auto dest: process_window_self)
  with name save setitem_getitem_str [OF set] show ?thesis
    by auto
qed

theorem process_request_saves_window_name_witness:
  "(\<exists>session name w0.
      py_getitem (age_window (PStr ''How old?'')) (PStr ''name'') = Inr name \<and>
      py_getitem session (PStr ''window'') = Inr name \<and>
      sm_save memory_sessions session w0 =
        Inr ((), \<lparr>sessions = [session_at (PStr ''AGE'') PNone], cached = []\<rparr>)) \<and>
   (\<exists>session name w0.
      py_getitem next_window (PStr ''name'') = Inr name \<and>
      py_getitem session (PStr ''window'') = Inr name \<and>
      sm_save memory_sessions session w0 =
        Inr ((), \<lparr>sessions = [session_at (PStr ''NEXT'') (PDict []),
                              session_at (PStr ''MENU'') (PDict [])],
                  cached = []\<rparr>))"
proof -
  have fresh:
    "process_request
       (app_of ''AGE'' [(PStr ''AGE'', age_window (PStr ''How old?'')),
                        (PStr ''NEXT'', next_window)])
       (request_of []) \<lparr>sessions = [], cached = []\<rparr> =
     Inr ((age_window (PStr ''How old?''),
           app_of ''AGE'' [(PStr ''AGE'', age_window (PStr ''How old?'')),
                           (PStr ''NEXT'', next_window)]),
          \<lparr>sessions = [session_at (PStr ''AGE'') PNone], cached = []\<rparr>)"
    by (simp add: engine_defs example_defs)
  have stored:
    "process_request
       (app_of ''MENU'' [(PStr ''MENU'', menu_window), (PStr ''NEXT'', next_window)])
       (request_of ''1'')
       \<lparr>sessions = [session_at (PStr ''MENU'') (PDict [])], cached = []\<rparr> =
     Inr ((next_window,
           app_of ''MENU'' [(PStr ''MENU'', menu_window), (PStr ''NEXT'', next_window)]),
          \<lparr>sessions = [session_at (PStr ''NEXT'') (PDict []),
                       session_at (PStr ''MENU'') (PDict [])],
           cached = []\<rparr>)"
    by (simp add: engine_defs example_defs)
  show ?thesis
    using process_request_saves_window_name [OF fresh]
      process_request_saves_window_name [OF stored]
    by (simp add: app_of_def Lottus_def)
qed

text \<open>
  C5. A window name that no source knows gives \<^verbatim>\<open>None\<close> from \<open>get_window\<close>, and
  \<open>process_request\<close> raises on it at line 65: for the initial window of a new
  session, and for the window an option of a stored session's window points to.
\<close>

theorem unknown_window_raises:
  "get_window (app_of ''HOME'' []) (PStr ''HOME'') = Inr PNone \<and>
   process_request (app_of ''HOME'' []) (request_of [])
     \<lparr>sessions = [], cached = []\<rparr> =
   Inl TypeError \<and>
   process_window (app_of ''MENU'' [(PStr ''MENU'', menu_window)])
     (session_at (PStr ''MENU'') PNone) (request_of ''1'')
     \<lparr>sessions = [session_at (PStr ''MENU'') PNone], cached = []\<rparr> =
   Inr ((PNone, session_at (PStr ''MENU'') PNone,
         app_of ''MENU'' [(PStr ''MENU'', menu_window)]),
        \<lparr>sessions = [session_at (PStr ''MENU'') PNone], cached = []\<rparr>) \<and>
   process_request (app_of ''MENU'' [(PStr ''MENU'', menu_window)]) (request_of ''1'')
     \<lparr>sessions = [session_at (PStr ''MENU'') PNone], cached = []\<rparr> =
   Inl TypeError"
  by (simp add: engine_defs example_defs)

text \<open>
  C6. The current window comes from the four sources in the order of the
  specification, the first result that is not \<^verbatim>\<open>None\<close> being used; a window that the
  cache holds for the session number is used whatever processor is mapped to the name;
  and the name \<open>process_window\<close> resolves is the one the session holds under
  \<^verbatim>\<open>window\<close>.
\<close>

theorem resolve_actual_window_order:
  "bnd (resolve_actual_window self name session request) (\<lambda>(window, in_windows, session'). ret window) =
     resolution_order self name session request \<and>
   (window_cache self = Some cache \<longrightarrow>
    py_getitem request (PStr ''session_nr'') = Inr session_nr \<longrightarrow>
    wc_get cache name (Some session_nr) w = Inr (window, w') \<longrightarrow>
    window \<noteq> PNone \<longrightarrow>
    resolve_actual_window self name session request w = Inr ((window, False, session), w')) \<and>
   process_window self session request =
     bnd (lift (py_getitem session (PStr ''window''))) (\<lambda>actual_window_name.
     bnd (resolve_actual_window self actual_window_name session request)
       (\<lambda>(actual_window, in_windows, session').
     transition self session' request actual_window_name actual_window in_windows))"
  by (auto simp: process_window_def resolve_actual_window_def resolution_order_def cache_scoped_def
        cache_unscoped_def dynamic_resolver_def static_registry_def bnd_def lift_def ret_def
        fun_eq_iff split: option.splits sum.splits prod.splits)

theorem resolve_actual_window_order_witness:
  "resolve_actual_window
     ((app_of ''AGE'' [(PStr ''AGE'', age_window (PStr ''How old are you?''))])
        \<lparr>window_cache := Some memory_cache,
         mapped_windows := [(PStr ''AGE'', age_processor)]\<rparr>)
     (PStr ''AGE'') (session_at (PStr ''AGE'') (PDict [])) (request_of ''34'')
     \<lparr>sessions = [], cached = [(Some (PStr ''1''), age_window (PStr ''Your age?''))]\<rparr> =
   Inr ((age_window (PStr ''Your age?''), False, session_at (PStr ''AGE'') (PDict [])),
        \<lparr>sessions = [], cached = [(Some (PStr ''1''), age_window (PStr ''Your age?''))]\<rparr>)"
  using resolve_actual_window_order
    [of "(app_of ''AGE'' [(PStr ''AGE'', age_window (PStr ''How old are you?''))])
           \<lparr>window_cache := Some memory_cache,
            mapped_windows := [(PStr ''AGE'', age_processor)]\<rparr>"
        "PStr ''AGE''" "session_at (PStr ''AGE'') (PDict [])" "request_of ''34''"
        memory_cache "PStr ''1''"
        "\<lparr>sessions = [], cached = [(Some (PStr ''1''), age_window (PStr ''Your age?''))]\<rparr>"
        "age_window (PStr ''Your age?'')"
        "\<lparr>sessions = [], cached = [(Some (PStr ''1''), age_window (PStr ''Your age?''))]\<rparr>"]
  by (simp add: example_defs Lottus_def memory_cache_def create_request_def
        create_required_def create_option_def key_eq_def)

text \<open>
  C7. The first request of a session makes \<open>process_request\<close> create the session with
  \<^verbatim>\<open>variables\<close> \<^verbatim>\<open>None\<close> (line 54) and save it. With \<^verbatim>\<open>AGE\<close> as the initial
  window, whose \<^verbatim>\<open>required\<close> has \<^verbatim>\<open>in_options\<close> false, the next request of
  that stored session raises at line 115: \<^verbatim>\<open>None\<close> takes no item assignment.
\<close>

theorem free_text_capture_raises_on_created_session:
  "process_request
     (app_of ''AGE'' [(PStr ''AGE'', age_window (PStr ''How old?'')),
                      (PStr ''NEXT'', next_window)])
     (request_of []) \<lparr>sessions = [], cached = []\<rparr> =
   Inr ((age_window (PStr ''How old?''),
         app_of ''AGE'' [(PStr ''AGE'', age_window (PStr ''How old?'')),
                         (PStr ''NEXT'', next_window)]),
        \<lparr>sessions = [session_at (PStr ''AGE'') PNone], cached = []\<rparr>) \<and>
   process_request
     (app_of ''AGE'' [(PStr ''AGE'', age_window (PStr ''How old?'')),
                      (PStr ''NEXT'', next_window)])
     (request_of ''34'') \<lparr>sessions = [session_at (PStr ''AGE'') PNone], cached = []\<rparr> =
   Inl TypeError"
  by (simp add: engine_defs example_defs)

text \<open>
  When the session holds a dictionary under \<^verbatim>\<open>variables\<close>, lines 114 to 117 do
  capture the request text under \<^verbatim>\<open>required['var']\<close> and go to the window that
  \<^verbatim>\<open>required['window']\<close> names in the static windows, whatever the text is.
\<close>

lemma free_text_capture_on_mapping:
  assumes "py_getitem session (PStr ''window'') = Inr name"
    and "resolve_actual_window self name session request w =
           Inr ((actual_window, in_windows, current), w')"
    and "py_getitem actual_window (PStr ''options'') = Inr options"
    and "py_getitem actual_window (PStr ''type'') = Inr window_type"
    and "py_getitem actual_window (PStr ''active'') = Inr active"
    and "py_getitem actual_window (PStr ''required'') = Inr required"
    and "py_getitem required (PStr ''window'') = Inr target"
    and "py_contains required (PStr ''in_options'') = Inr False \<or>
         (\<exists>in_options. py_getitem required (PStr ''in_options'') = Inr in_options \<and>
                       \<not> py_eq in_options (PBool True))"
    and "py_getitem required (PStr ''var'') = Inr var"
    and "hashable var"
    and "py_getitem request (PStr ''session_nr'') = Inr session_nr"
    and "py_getitem request (PStr ''request_str'') = Inr request_str"
    and "py_getitem request (PStr ''cell_nr'') = Inr cell_nr"
    and "py_getitem current (PStr ''variables'') = Inr (PDict variables)"
    and "get_window self target = Inr window"
  shows "\<exists>session'.
           py_setitem current (PStr ''variables'') (PDict (dict_update var request_str variables)) =
             Inr session' \<and>
           py_getitem (PDict (dict_update var request_str variables)) var = Inr request_str \<and>
           process_window self session request w = Inr ((window, session', self), w')"
proof -
  obtain r where r: "required = PDict r" "dict_lookup r (PStr ''window'') = Some target"
    using getitem_str_dict [OF assms(7)] by blast
  obtain d where d: "current = PDict d"
    using getitem_str_dict [OF assms(14)] by blast
  have req: "window_required actual_window = Inr required"
    using getitem_str_dict [OF assms(6)] assms(6)
    by (auto simp: window_required_def bind_err_def)
  have some: "required \<noteq> PNone"
    using r by simp
  have has_window: "py_contains required (PStr ''window'') = Inr True"
    using r by simp
  have cap: "capture current required (Inr request_str) =
             Inr (PDict (dict_update (PStr ''variables'')
                           (PDict (dict_update var request_str variables)) d))"
    using assms(9,10,14) d
    by (auto simp: capture_def bind_err_def)
  have "process_window self session request w =
          Inr ((window,
                PDict (dict_update (PStr ''variables'')
                         (PDict (dict_update var request_str variables)) d),
                self), w')"
    using assms(8)
  proof
    assume "py_contains required (PStr ''in_options'') = Inr False"
    then show ?thesis
      by (simp add: process_window_def transition_def required_branch_def bnd_def lift_def
            ret_def bind_err_def assms(1,2,3,4,5,7,11,12,13,15) req some has_window cap)
  next
    assume "\<exists>in_options. py_getitem required (PStr ''in_options'') = Inr in_options \<and>
                        \<not> py_eq in_options (PBool True)"
    then obtain in_options where io: "py_getitem required (PStr ''in_options'') = Inr in_options"
      and no: "\<not> py_eq in_options (PBool True)"
      by blast
    have has_in_options: "py_contains required (PStr ''in_options'') = Inr True"
      using getitem_str_dict [OF io] by auto
    from no show ?thesis
      by (simp add: process_window_def transition_def required_branch_def bnd_def lift_def
            ret_def bind_err_def assms(1,2,3,4,5,7,11,12,13,15) req some has_window
            has_in_options io cap)
  qed
  with d assms(10) show ?thesis
    by simp
qed

text \<open>
  C8, at a stored session whose current window \<^verbatim>\<open>AGE\<close> has a processor: the
  processor returns a session of its own, with \<^verbatim>\<open>seen\<close> among its variables, and
  leaves the one it was handed alone. Line 87 binds the returned session to
  \<^verbatim>\<open>old_session\<close> and nothing reads it again; the session that is saved is the
  stored one with the captured age, without \<^verbatim>\<open>seen\<close>.
\<close>

theorem current_window_processor_session_dropped:
  "age_processor (session_at (PStr ''AGE'') (PDict [])) (request_of ''34'')
     \<lparr>sessions = [session_at (PStr ''AGE'') (PDict [])], cached = []\<rparr> =
   Inr ((age_window (PStr ''How old are you?''),
         session_at (PStr ''AGE'') (PDict [(PStr ''seen'', PStr ''yes'')]),
         session_at (PStr ''AGE'') (PDict [])),
        \<lparr>sessions = [session_at (PStr ''AGE'') (PDict [])], cached = []\<rparr>) \<and>
   process_request
     ((app_of ''AGE'' [(PStr ''NEXT'', next_window)])
        \<lparr>mapped_windows := [(PStr ''AGE'', age_processor)]\<rparr>)
     (request_of ''34'')
     \<lparr>sessions = [session_at (PStr ''AGE'') (PDict [])], cached = []\<rparr> =
   Inr ((next_window,
         ((app_of ''AGE'' [(PStr ''NEXT'', next_window)])
        \<lparr>mapped_windows := [(PStr ''AGE'', age_processor)]\<rparr>)),
        \<lparr>sessions = [session_at (PStr ''NEXT'') (PDict [(PStr ''age'', PStr ''34'')]),
                     session_at (PStr ''AGE'') (PDict [])],
         cached = []\<rparr>)"
  by (simp add: engine_defs example_defs)

text \<open>
  C8, amended. The session a processor returns is the one the engine goes on with and
  saves in two places: for the initial window of a new session, and for the window that
  the selected option of a stored session's window points to; in both it is saved with
  the name of the window the processor returned. For the current window of a stored
  session the engine takes only the window the processor returns: the session returned
  is dropped, and the transition, the window name and the save work on the session
  object that was passed to the processor, with what the processor wrote into it.
\<close>

theorem processor_session_use:
  "(py_getitem request (PStr ''session_nr'') = Inr session_nr \<longrightarrow>
    py_getitem request (PStr ''request_str'') = Inr request_str \<longrightarrow>
    py_getitem request (PStr ''cell_nr'') = Inr cell_nr \<longrightarrow>
    sm_get (session_manager self) session_nr cell_nr w = Inr (PNone, w1) \<longrightarrow>
    hashable (initial_window self) \<longrightarrow>
    dict_lookup (mapped_windows self) (initial_window self) = Some processor \<longrightarrow>
    processor (create_session session_nr cell_nr (initial_window self) PNone) request w1 =
      Inr ((window, returned, passed), w2) \<longrightarrow>
    (case window_cache self of
       None \<Rightarrow> ret ()
     | Some cache \<Rightarrow> wc_cache cache window session_nr) w2 = Inr ((), w3) \<longrightarrow>
    py_getitem window (PStr ''name'') = Inr window_name \<longrightarrow>
    py_setitem returned (PStr ''window'') window_name = Inr saved \<longrightarrow>
    sm_save (session_manager self) saved w3 = Inr ((), w4) \<longrightarrow>
    process_request self request w = Inr ((window, self), w4)) \<and>
   (py_getitem request (PStr ''session_nr'') = Inr session_nr \<longrightarrow>
    py_getitem request (PStr ''request_str'') = Inr request_str \<longrightarrow>
    py_getitem request (PStr ''cell_nr'') = Inr cell_nr \<longrightarrow>
    sm_get (session_manager self) session_nr cell_nr w = Inr (session, w1) \<longrightarrow>
    session \<noteq> PNone \<longrightarrow>
    py_getitem session (PStr ''window'') = Inr name \<longrightarrow>
    resolve_actual_window self name session request w1 =
      Inr ((actual_window, in_windows, current), w2) \<longrightarrow>
    py_getitem actual_window (PStr ''options'') = Inr options \<longrightarrow>
    py_getitem actual_window (PStr ''type'') = Inr window_type \<longrightarrow>
    py_getitem actual_window (PStr ''active'') = Inr active \<longrightarrow>
    window_required actual_window = Inr PNone \<longrightarrow>
    get_selected_option actual_window request = Inr selected \<longrightarrow>
    selected \<noteq> PNone \<longrightarrow>
    py_getitem selected (PStr ''window'') = Inr target \<longrightarrow>
    hashable target \<longrightarrow>
    dict_lookup (mapped_windows self) target = Some processor \<longrightarrow>
    processor current request w2 = Inr ((window, returned, passed), w3) \<longrightarrow>
    (case window_cache self of
       None \<Rightarrow> ret ()
     | Some cache \<Rightarrow> wc_cache cache window session_nr) w3 = Inr ((), w4) \<longrightarrow>
    py_getitem window (PStr ''name'') = Inr window_name \<longrightarrow>
    py_setitem returned (PStr ''window'') window_name = Inr saved \<longrightarrow>
    sm_save (session_manager self) saved w4 = Inr ((), w5) \<longrightarrow>
    process_request self request w = Inr ((window, self), w5)) \<and>
   (py_getitem request (PStr ''session_nr'') = Inr session_nr \<longrightarrow>
    py_getitem request (PStr ''request_str'') = Inr request_str \<longrightarrow>
    py_getitem request (PStr ''cell_nr'') = Inr cell_nr \<longrightarrow>
    sm_get (session_manager self) session_nr cell_nr w = Inr (session, w1) \<longrightarrow>
    session \<noteq> PNone \<longrightarrow>
    py_getitem session (PStr ''window'') = Inr name \<longrightarrow>
    first_non_empty [cache_scoped self name request, cache_unscoped self name] w1 =
      Inr (PNone, w2) \<longrightarrow>
    hashable name \<longrightarrow>
    dict_lookup (mapped_windows self) name = Some processor \<longrightarrow>
    processor session request w2 = Inr ((actual_window, returned, passed), w3) \<longrightarrow>
    actual_window \<noteq> PNone \<longrightarrow>
    process_request self request w =
      bnd (transition self passed request name actual_window False)
        (\<lambda>(window, session', self').
          bnd (lift (py_getitem window (PStr ''name''))) (\<lambda>window_name.
          bnd (lift (py_setitem session' (PStr ''window'') window_name)) (\<lambda>saved.
          bnd (sm_save (session_manager self') saved) (\<lambda>u.
          ret (window, self'))))) w3)"
proof (intro conjI impI)
  assume "py_getitem request (PStr ''session_nr'') = Inr session_nr"
    "py_getitem request (PStr ''request_str'') = Inr request_str"
    "py_getitem request (PStr ''cell_nr'') = Inr cell_nr"
    "sm_get (session_manager self) session_nr cell_nr w = Inr (PNone, w1)"
    "hashable (initial_window self)"
    "dict_lookup (mapped_windows self) (initial_window self) = Some processor"
    "processor (create_session session_nr cell_nr (initial_window self) PNone) request w1 =
      Inr ((window, returned, passed), w2)"
    "(case window_cache self of
       None \<Rightarrow> ret ()
     | Some cache \<Rightarrow> wc_cache cache window session_nr) w2 = Inr ((), w3)"
    "py_getitem window (PStr ''name'') = Inr window_name"
    "py_setitem returned (PStr ''window'') window_name = Inr saved"
    "sm_save (session_manager self) saved w3 = Inr ((), w4)"
  then show "process_request self request w = Inr ((window, self), w4)"
    by (simp add: process_request_def get_mapped_window_def in_mapped_windows_def bnd_def
          lift_def ret_def)
next
  assume "py_getitem request (PStr ''session_nr'') = Inr session_nr"
    "py_getitem request (PStr ''request_str'') = Inr request_str"
    "py_getitem request (PStr ''cell_nr'') = Inr cell_nr"
    "sm_get (session_manager self) session_nr cell_nr w = Inr (session, w1)"
    "session \<noteq> PNone"
    "py_getitem session (PStr ''window'') = Inr name"
    "resolve_actual_window self name session request w1 =
      Inr ((actual_window, in_windows, current), w2)"
    "py_getitem actual_window (PStr ''options'') = Inr options"
    "py_getitem actual_window (PStr ''type'') = Inr window_type"
    "py_getitem actual_window (PStr ''active'') = Inr active"
    "window_required actual_window = Inr PNone"
    "get_selected_option actual_window request = Inr selected"
    "selected \<noteq> PNone"
    "py_getitem selected (PStr ''window'') = Inr target"
    "hashable target"
    "dict_lookup (mapped_windows self) target = Some processor"
    "processor current request w2 = Inr ((window, returned, passed), w3)"
    "(case window_cache self of
       None \<Rightarrow> ret ()
     | Some cache \<Rightarrow> wc_cache cache window session_nr) w3 = Inr ((), w4)"
    "py_getitem window (PStr ''name'') = Inr window_name"
    "py_setitem returned (PStr ''window'') window_name = Inr saved"
    "sm_save (session_manager self) saved w4 = Inr ((), w5)"
  then show "process_request self request w = Inr ((window, self), w5)"
    by (simp add: process_request_def process_window_def transition_def select_branch_def
          get_mapped_window_def in_mapped_windows_def bnd_def lift_def ret_def)
next
  assume "py_getitem request (PStr ''session_nr'') = Inr session_nr"
    "py_getitem request (PStr ''request_str'') = Inr request_str"
    "py_getitem request (PStr ''cell_nr'') = Inr cell_nr"
    "sm_get (session_manager self) session_nr cell_nr w = Inr (session, w1)"
    "session \<noteq> PNone"
    "py_getitem session (PStr ''window'') = Inr name"
    "first_non_empty [cache_scoped self name request, cache_unscoped self name] w1 =
      Inr (PNone, w2)"
    "hashable name"
    "dict_lookup (mapped_windows self) name = Some processor"
    "processor session request w2 = Inr ((actual_window, returned, passed), w3)"
    "actual_window \<noteq> PNone"
  then show "process_request self request w =
      bnd (transition self passed request name actual_window False)
        (\<lambda>(window, session', self').
          bnd (lift (py_getitem window (PStr ''name''))) (\<lambda>window_name.
          bnd (lift (py_setitem session' (PStr ''window'') window_name)) (\<lambda>saved.
          bnd (sm_save (session_manager self') saved) (\<lambda>u.
          ret (window, self'))))) w3"
    by (auto simp: process_request_def process_window_def resolve_actual_window_def
          cache_scoped_def cache_unscoped_def get_mapped_window_def in_mapped_windows_def
          bnd_def lift_def ret_def split: option.splits sum.splits prod.splits if_splits)
qed

theorem processor_session_use_witness:
  "process_request
     ((app_of ''AGE'' [(PStr ''NEXT'', next_window)])
        \<lparr>mapped_windows := [(PStr ''AGE'', age_processor)]\<rparr>)
     (request_of []) \<lparr>sessions = [], cached = []\<rparr> =
   Inr ((age_window (PStr ''How old are you?''),
         ((app_of ''AGE'' [(PStr ''NEXT'', next_window)])
        \<lparr>mapped_windows := [(PStr ''AGE'', age_processor)]\<rparr>)),
        \<lparr>sessions = [session_at (PStr ''AGE'') (PDict [(PStr ''seen'', PStr ''yes'')])],
         cached = []\<rparr>) \<and>
   process_request
     ((app_of ''MENU'' [(PStr ''MENU'', menu_window)])
        \<lparr>mapped_windows := [(PStr ''NEXT'', age_processor)]\<rparr>)
     (request_of ''1'') \<lparr>sessions = [session_at (PStr ''MENU'') (PDict [])], cached = []\<rparr> =
   Inr ((age_window (PStr ''How old are you?''),
         ((app_of ''MENU'' [(PStr ''MENU'', menu_window)])
        \<lparr>mapped_windows := [(PStr ''NEXT'', age_processor)]\<rparr>)),
        \<lparr>sessions = [session_at (PStr ''AGE'') (PDict [(PStr ''seen'', PStr ''yes'')]),
                     session_at (PStr ''MENU'') (PDict [])],
         cached = []\<rparr>) \<and>
   process_request
     ((app_of ''AGE'' [(PStr ''NEXT'', next_window)])
        \<lparr>mapped_windows := [(PStr ''AGE'', age_processor)]\<rparr>)
     (request_of ''34'') \<lparr>sessions = [session_at (PStr ''AGE'') (PDict [])], cached = []\<rparr> =
   bnd (transition
          ((app_of ''AGE'' [(PStr ''NEXT'', next_window)])
        \<lparr>mapped_windows := [(PStr ''AGE'', age_processor)]\<rparr>)
          (session_at (PStr ''AGE'') (PDict [])) (request_of ''34'') (PStr ''AGE'')
          (age_window (PStr ''How old are you?'')) False)
       (\<lambda>(window, session', self').
          bnd (lift (py_getitem window (PStr ''name''))) (\<lambda>window_name.
          bnd (lift (py_setitem session' (PStr ''window'') window_name)) (\<lambda>saved.
          bnd (sm_save (session_manager self') saved) (\<lambda>u.
          ret (window, self')))))
     \<lparr>sessions = [session_at (PStr ''AGE'') (PDict [])], cached = []\<rparr> \<and>
   process_request
     ((app_of ''AGE'' [(PStr ''NEXT'', next_window)])
        \<lparr>mapped_windows := [(PStr ''AGE'', marking_processor)]\<rparr>)
     (request_of ''34'') \<lparr>sessions = [session_at (PStr ''AGE'') (PDict [])], cached = []\<rparr> =
   Inr ((next_window,
         ((app_of ''AGE'' [(PStr ''NEXT'', next_window)])
        \<lparr>mapped_windows := [(PStr ''AGE'', marking_processor)]\<rparr>)),
        \<lparr>sessions = [session_at (PStr ''NEXT'')
                       (PDict [(PStr ''seen'', PStr ''yes''), (PStr ''age'', PStr ''34'')]),
                     session_at (PStr ''AGE'') (PDict [])],
         cached = []\<rparr>)"
proof (intro conjI)
  show "process_request
     ((app_of ''AGE'' [(PStr ''NEXT'', next_window)])
        \<lparr>mapped_windows := [(PStr ''AGE'', age_processor)]\<rparr>)
     (request_of []) \<lparr>sessions = [], cached = []\<rparr> =
   Inr ((age_window (PStr ''How old are you?''),
         ((app_of ''AGE'' [(PStr ''NEXT'', next_window)])
        \<lparr>mapped_windows := [(PStr ''AGE'', age_processor)]\<rparr>)),
        \<lparr>sessions = [session_at (PStr ''AGE'') (PDict [(PStr ''seen'', PStr ''yes'')])],
         cached = []\<rparr>)"
    using processor_session_use
      [where request = "request_of []"
         and request_str = "PStr []"
         and session_nr = "PStr ''1''"
         and cell_nr = "PStr ''258''"
         and self = "(app_of ''AGE'' [(PStr ''NEXT'', next_window)])
        \<lparr>mapped_windows := [(PStr ''AGE'', age_processor)]\<rparr>"
         and w = "\<lparr>sessions = [], cached = []\<rparr>"
         and ?w1.0 = "\<lparr>sessions = [], cached = []\<rparr>"
         and processor = age_processor
         and window = "age_window (PStr ''How old are you?'')"
         and returned = "session_at (PStr ''AGE'') (PDict [(PStr ''seen'', PStr ''yes'')])"
         and passed = "create_session (PStr ''1'') (PStr ''258'') (PStr ''AGE'') PNone"
         and ?w2.0 = "\<lparr>sessions = [], cached = []\<rparr>"
         and ?w3.0 = "\<lparr>sessions = [], cached = []\<rparr>"
         and window_name = "PStr ''AGE''"
         and saved = "session_at (PStr ''AGE'') (PDict [(PStr ''seen'', PStr ''yes'')])"
         and ?w4.0 = "\<lparr>sessions = [session_at (PStr ''AGE'') (PDict [(PStr ''seen'', PStr ''yes'')])], cached = []\<rparr>",
       THEN conjunct1]
    by (simp add: engine_defs example_defs)
next
  show "process_request
     ((app_of ''MENU'' [(PStr ''MENU'', menu_window)])
        \<lparr>mapped_windows := [(PStr ''NEXT'', age_processor)]\<rparr>)
     (request_of ''1'') \<lparr>sessions = [session_at (PStr ''MENU'') (PDict [])], cached = []\<rparr> =
   Inr ((age_window (PStr ''How old are you?''),
         ((app_of ''MENU'' [(PStr ''MENU'', menu_window)])
        \<lparr>mapped_windows := [(PStr ''NEXT'', age_processor)]\<rparr>)),
        \<lparr>sessions = [session_at (PStr ''AGE'') (PDict [(PStr ''seen'', PStr ''yes'')]),
                     session_at (PStr ''MENU'') (PDict [])],
         cached = []\<rparr>)"
    using processor_session_use
      [where request = "request_of ''1''"
         and request_str = "PStr ''1''"
         and session_nr = "PStr ''1''"
         and cell_nr = "PStr ''258''"
         and self = "(app_of ''MENU'' [(PStr ''MENU'', menu_window)])
        \<lparr>mapped_windows := [(PStr ''NEXT'', age_processor)]\<rparr>"
         and w = "\<lparr>sessions = [session_at (PStr ''MENU'') (PDict [])], cached = []\<rparr>"
         and ?w1.0 = "\<lparr>sessions = [session_at (PStr ''MENU'') (PDict [])], cached = []\<rparr>"
         and session = "session_at (PStr ''MENU'') (PDict [])"
         and name = "PStr ''MENU''"
         and actual_window = menu_window
         and in_windows = True
         and current = "session_at (PStr ''MENU'') (PDict [])"
         and ?w2.0 = "\<lparr>sessions = [session_at (PStr ''MENU'') (PDict [])], cached = []\<rparr>"
         and options = "PList [create_option (PStr ''1'') (PStr ''Go on'') (PStr ''NEXT'') (PBool True)]"
         and window_type = "PStr ''FORM''"
         and active = "PBool True"
         and selected = "create_option (PStr ''1'') (PStr ''Go on'') (PStr ''NEXT'') (PBool True)"
         and target = "PStr ''NEXT''"
         and processor = age_processor
         and window = "age_window (PStr ''How old are you?'')"
         and returned = "session_at (PStr ''AGE'') (PDict [(PStr ''seen'', PStr ''yes'')])"
         and passed = "session_at (PStr ''MENU'') (PDict [])"
         and ?w3.0 = "\<lparr>sessions = [session_at (PStr ''MENU'') (PDict [])], cached = []\<rparr>"
         and ?w4.0 = "\<lparr>sessions = [session_at (PStr ''MENU'') (PDict [])], cached = []\<rparr>"
         and window_name = "PStr ''AGE''"
         and saved = "session_at (PStr ''AGE'') (PDict [(PStr ''seen'', PStr ''yes'')])"
         and ?w5.0 = "\<lparr>sessions = [session_at (PStr ''AGE'') (PDict [(PStr ''seen'', PStr ''yes'')]), session_at (PStr ''MENU'') (PDict [])], cached = []\<rparr>",
       THEN conjunct2, THEN conjunct1]
    by (simp add: engine_defs example_defs)
next
  show "process_request
     ((app_of ''AGE'' [(PStr ''NEXT'', next_window)])
        \<lparr>mapped_windows := [(PStr ''AGE'', age_processor)]\<rparr>)
     (request_of ''34'') \<lparr>sessions = [session_at (PStr ''AGE'') (PDict [])], cached = []\<rparr> =
   bnd (transition
          ((app_of ''AGE'' [(PStr ''NEXT'', next_window)])
        \<lparr>mapped_windows := [(PStr ''AGE'', age_processor)]\<rparr>)
          (session_at (PStr ''AGE'') (PDict [])) (request_of ''34'') (PStr ''AGE'')
          (age_window (PStr ''How old are you?'')) False)
       (\<lambda>(window, session', self').
          bnd (lift (py_getitem window (PStr ''name''))) (\<lambda>window_name.
          bnd (lift (py_setitem session' (PStr ''window'') window_name)) (\<lambda>saved.
          bnd (sm_save (session_manager self') saved) (\<lambda>u.
          ret (window, self')))))
     \<lparr>sessions = [session_at (PStr ''AGE'') (PDict [])], cached = []\<rparr>"
    using processor_session_use
      [where request = "request_of ''34''"
         and request_str = "PStr ''34''"
         and session_nr = "PStr ''1''"
         and cell_nr = "PStr ''258''"
         and self = "(app_of ''AGE'' [(PStr ''NEXT'', next_window)])
        \<lparr>mapped_windows := [(PStr ''AGE'', age_processor)]\<rparr>"
         and w = "\<lparr>sessions = [session_at (PStr ''AGE'') (PDict [])], cached = []\<rparr>"
         and ?w1.0 = "\<lparr>sessions = [session_at (PStr ''AGE'') (PDict [])], cached = []\<rparr>"
         and session = "session_at (PStr ''AGE'') (PDict [])"
         and name = "PStr ''AGE''"
         and ?w2.0 = "\<lparr>sessions = [session_at (PStr ''AGE'') (PDict [])], cached = []\<rparr>"
         and processor = age_processor
         and actual_window = "age_window (PStr ''How old are you?'')"
         and returned = "session_at (PStr ''AGE'') (PDict [(PStr ''seen'', PStr ''yes'')])"
         and passed = "session_at (PStr ''AGE'') (PDict [])"
         and ?w3.0 = "\<lparr>sessions = [session_at (PStr ''AGE'') (PDict [])], cached = []\<rparr>",
       THEN conjunct2, THEN conjunct2]
    by (simp add: cache_scoped_def cache_unscoped_def engine_defs example_defs)
next
  show "process_request
     ((app_of ''AGE'' [(PStr ''NEXT'', next_window)])
        \<lparr>mapped_windows := [(PStr ''AGE'', marking_processor)]\<rparr>)
     (request_of ''34'') \<lparr>sessions = [session_at (PStr ''AGE'') (PDict [])], cached = []\<rparr> =
   Inr ((next_window,
         ((app_of ''AGE'' [(PStr ''NEXT'', next_window)])
        \<lparr>mapped_windows := [(PStr ''AGE'', marking_processor)]\<rparr>)),
        \<lparr>sessions = [session_at (PStr ''NEXT'')
                       (PDict [(PStr ''seen'', PStr ''yes''), (PStr ''age'', PStr ''34'')]),
                     session_at (PStr ''AGE'') (PDict [])],
         cached = []\<rparr>)"
    using processor_session_use
      [where request = "request_of ''34''"
         and request_str = "PStr ''34''"
         and session_nr = "PStr ''1''"
         and cell_nr = "PStr ''258''"
         and self = "(app_of ''AGE'' [(PStr ''NEXT'', next_window)])
        \<lparr>mapped_windows := [(PStr ''AGE'', marking_processor)]\<rparr>"
         and w = "\<lparr>sessions = [session_at (PStr ''AGE'') (PDict [])], cached = []\<rparr>"
         and ?w1.0 = "\<lparr>sessions = [session_at (PStr ''AGE'') (PDict [])], cached = []\<rparr>"
         and session = "session_at (PStr ''AGE'') (PDict [])"
         and name = "PStr ''AGE''"
         and ?w2.0 = "\<lparr>sessions = [session_at (PStr ''AGE'') (PDict [])], cached = []\<rparr>"
         and processor = marking_processor
         and actual_window = "age_window (PStr ''How old are you?'')"
         and returned = "session_at (PStr ''AGE'') (PDict [(PStr ''seen'', PStr ''yes'')])"
         and passed = "session_at (PStr ''AGE'') (PDict [(PStr ''seen'', PStr ''yes'')])"
         and ?w3.0 = "\<lparr>sessions = [session_at (PStr ''AGE'') (PDict [])], cached = []\<rparr>",
       THEN conjunct2, THEN conjunct2]
    by (simp add: cache_scoped_def cache_unscoped_def engine_defs example_defs)
qed

text \<open>
  C9. A window whose \<^verbatim>\<open>options\<close> is \<^verbatim>\<open>None\<close>, as \<open>create_window\<close> builds it
  when no options are passed and as \<open>create_error_window\<close> always does, has the key
  \<^verbatim>\<open>options\<close>; \<open>window_response\<close> iterates over its value and raises.
\<close>

theorem window_response_raises_without_options:
  "window_response (create_error_window (PStr ''Error processing your request'')) =
     Inl TypeError \<and>
   window_response
     (create_window (PStr ''HOME'') (PStr ''Home'') (PStr ''Welcome'') PNone PNone (PBool True)
        (PStr ''FORM'')) =
     Inl TypeError"
  by (simp add: window_response_def engine_defs)

text \<open>
  On a window whose \<^verbatim>\<open>options\<close> is a list of options that have an
  \<^verbatim>\<open>option\<close> and a \<^verbatim>\<open>display\<close>, the response has the three keys
  \<^verbatim>\<open>message\<close>, \<^verbatim>\<open>title\<close>, \<^verbatim>\<open>options\<close> and nothing else, with one pair
  for each option, in order; a window without the key \<^verbatim>\<open>options\<close> has the empty
  list, and no window gives no response.
\<close>

lemma option_responses_all:
  assumes "\<forall>x\<in>set xs. truthy x \<and>
             (\<exists>opt display. py_getitem x (PStr ''option'') = Inr opt \<and>
                            py_getitem x (PStr ''display'') = Inr display)"
  shows "\<exists>rs. option_responses xs = Inr rs \<and>
              list_all2 (\<lambda>x r. \<exists>opt display.
                           py_getitem x (PStr ''option'') = Inr opt \<and>
                           py_getitem x (PStr ''display'') = Inr display \<and>
                           r = PDict [(PStr ''option'', opt), (PStr ''value'', display)]) xs rs"
  using assms
proof (induction xs)
  case Nil
  then show ?case by simp
next
  case (Cons x xs)
  then obtain opt display where x: "truthy x" "py_getitem x (PStr ''option'') = Inr opt"
    "py_getitem x (PStr ''display'') = Inr display"
    by auto
  then have "option_response x = Inr (PDict [(PStr ''option'', opt), (PStr ''value'', display)])"
    by (simp add: option_response_def bind_err_def)
  moreover from Cons obtain rs where "option_responses xs = Inr rs"
    "list_all2 (\<lambda>x r. \<exists>opt display.
                 py_getitem x (PStr ''option'') = Inr opt \<and>
                 py_getitem x (PStr ''display'') = Inr display \<and>
                 r = PDict [(PStr ''option'', opt), (PStr ''value'', display)]) xs rs"
    by auto
  ultimately show ?case
    using x by auto
qed

lemma window_response_of_listed_options:
  assumes "d \<noteq> []"
    and "dict_lookup d (PStr ''options'') = Some (PList xs)"
    and "\<forall>x\<in>set xs. truthy x \<and>
           (\<exists>opt display. py_getitem x (PStr ''option'') = Inr opt \<and>
                          py_getitem x (PStr ''display'') = Inr display)"
  shows "\<exists>rs. window_response (PDict d) =
                Inr (PDict [(PStr ''message'',
                             case dict_lookup d (PStr ''message'') of None \<Rightarrow> PNone | Some m \<Rightarrow> m),
                            (PStr ''title'',
                             case dict_lookup d (PStr ''title'') of None \<Rightarrow> PNone | Some t \<Rightarrow> t),
                            (PStr ''options'', PList rs)]) \<and>
              list_all2 (\<lambda>x r. \<exists>opt display.
                           py_getitem x (PStr ''option'') = Inr opt \<and>
                           py_getitem x (PStr ''display'') = Inr display \<and>
                           r = PDict [(PStr ''option'', opt), (PStr ''value'', display)]) xs rs"
proof -
  from option_responses_all [OF assms(3)] obtain rs where
    rs: "option_responses xs = Inr rs"
    and all: "list_all2 (\<lambda>x r. \<exists>opt display.
                 py_getitem x (PStr ''option'') = Inr opt \<and>
                 py_getitem x (PStr ''display'') = Inr display \<and>
                 r = PDict [(PStr ''option'', opt), (PStr ''value'', display)]) xs rs"
    by blast
  have "window_response (PDict d) =
          Inr (PDict [(PStr ''message'',
                       case dict_lookup d (PStr ''message'') of None \<Rightarrow> PNone | Some m \<Rightarrow> m),
                      (PStr ''title'',
                       case dict_lookup d (PStr ''title'') of None \<Rightarrow> PNone | Some t \<Rightarrow> t),
                      (PStr ''options'', PList rs)])"
    using assms(1,2) rs
    by (auto simp: window_response_def bind_err_def split: option.splits)
  with all show ?thesis
    by blast
qed

lemma window_response_absent:
  "window_response PNone = Inr PNone \<and>
   (dict_lookup d (PStr ''options'') = None \<longrightarrow> d \<noteq> [] \<longrightarrow>
    window_response (PDict d) =
      Inr (PDict [(PStr ''message'',
                   case dict_lookup d (PStr ''message'') of None \<Rightarrow> PNone | Some m \<Rightarrow> m),
                  (PStr ''title'',
                   case dict_lookup d (PStr ''title'') of None \<Rightarrow> PNone | Some t \<Rightarrow> t),
                  (PStr ''options'', PList [])]))"
  by (auto simp: window_response_def bind_err_def split: option.splits)

text \<open>
  C10. The dictionary built by \<open>create_window\<close> has the six keys
  \<^verbatim>\<open>name\<close>, \<^verbatim>\<open>message\<close>, \<^verbatim>\<open>title\<close>, \<^verbatim>\<open>options\<close>, \<^verbatim>\<open>active\<close>,
  \<^verbatim>\<open>type\<close> and no \<^verbatim>\<open>required\<close>, whatever is passed for it; the transition
  step reads it as a window without a \<^verbatim>\<open>required\<close> and goes on to match the
  options.
\<close>

theorem create_window_drops_required:
  "py_iter (create_window name title message options required active window_type) =
     Inr [PStr ''name'', PStr ''message'', PStr ''title'', PStr ''options'', PStr ''active'',
          PStr ''type''] \<and>
   py_contains (create_window name title message options required active window_type)
     (PStr ''required'') = Inr False \<and>
   window_required (create_window name title message options required active window_type) =
     Inr PNone \<and>
   transition self session request actual_window_name
     (create_window name title message options required active window_type) in_windows =
     bnd (lift (py_getitem request (PStr ''session_nr''))) (\<lambda>session_nr.
     bnd (lift (py_getitem request (PStr ''request_str''))) (\<lambda>request_str.
     bnd (lift (py_getitem request (PStr ''cell_nr''))) (\<lambda>cell_nr.
     select_branch self session request actual_window_name
       (create_window name title message options required active window_type) in_windows
       session_nr)))"
  by (auto simp: transition_def window_required_def create_window_def bnd_def lift_def
        bind_err_def fun_eq_iff split: sum.splits)

end
